theory Spec2Isabelle
  imports Complex_Main "HOL-Library.Sublist"
begin

section \<open>Per-study file encryption (\<^verbatim>\<open>hsparc/utils/study_encryption.py\<close>)\<close>

text \<open>
  Paths and file contents are byte strings.  The file system is an explicit state: the
  files that exist with their contents, and the paths on which the operating system
  refuses an operation (\<^verbatim>\<open>open(p, 'rb')\<close>, \<^verbatim>\<open>open(p, 'wb')\<close>, a write on a full
  device, \<^verbatim>\<open>os.remove\<close>).  Every operation returns the file system it leaves behind
  together with either the exception raised or its result.
\<close>

type_synonym path = string
type_synonym bytes = string

datatype error =
    FileNotFoundError
  | PermissionError
  | NoSpaceError
  | ValueError string
  | IndexError

record filesystem =
  files :: "path \<rightharpoonup> bytes"
  unreadable :: "path set"
  unwritable :: "path set"
  nospace :: "path set"
  undeletable :: "path set"

definition read_file :: "filesystem \<Rightarrow> path \<Rightarrow> error + bytes" where
  "read_file fs p =
     (case files fs p of
        None \<Rightarrow> Inl FileNotFoundError
      | Some d \<Rightarrow> if p \<in> unreadable fs then Inl PermissionError else Inr d)"

definition write_file :: "filesystem \<Rightarrow> path \<Rightarrow> bytes \<Rightarrow> filesystem \<times> (error + unit)" where
  "write_file fs p d =
     (if p \<in> unwritable fs then (fs, Inl PermissionError)
      else if p \<in> nospace fs then (fs\<lparr>files := (files fs)(p \<mapsto> [])\<rparr>, Inl NoSpaceError)
      else (fs\<lparr>files := (files fs)(p \<mapsto> d)\<rparr>, Inr ()))"

definition os_remove :: "filesystem \<Rightarrow> path \<Rightarrow> filesystem \<times> (error + unit)" where
  "os_remove fs p =
     (case files fs p of
        None \<Rightarrow> (fs, Inl FileNotFoundError)
      | Some d \<Rightarrow>
          if p \<in> undeletable fs then (fs, Inl PermissionError)
          else (fs\<lparr>files := (files fs)(p := None)\<rparr>, Inr ()))"

text \<open>
  The \<^verbatim>\<open>cryptography\<close> package is a collaborator outside the repository: PBKDF2-HMAC-SHA256,
  URL-safe base64 and the Fernet token scheme are parameters of the model.  Fernet draws a
  random IV and a timestamp for every token; they are the explicit argument \<open>iv\<close>.
\<close>

record crypto =
  pbkdf2_hmac_sha256 :: "nat \<Rightarrow> bytes \<Rightarrow> nat \<Rightarrow> bytes \<Rightarrow> bytes"
  urlsafe_b64encode :: "bytes \<Rightarrow> bytes"
  fernet_encrypt :: "bytes \<Rightarrow> bytes \<Rightarrow> bytes \<Rightarrow> bytes"
  fernet_decrypt :: "bytes \<Rightarrow> bytes \<Rightarrow> bytes option"

definition derive_key_from_pin :: "crypto \<Rightarrow> string \<Rightarrow> string \<Rightarrow> bytes" where
  "derive_key_from_pin L study_id pin =
     (let salt = study_id
      in urlsafe_b64encode L (pbkdf2_hmac_sha256 L 32 salt 100000 pin))"

definition encrypt_file ::
  "crypto \<Rightarrow> bytes \<Rightarrow> path \<Rightarrow> string \<Rightarrow> string \<Rightarrow> filesystem \<Rightarrow> filesystem \<times> (error + path)" where
  "encrypt_file L iv filepath study_id pin fs =
     (let key = derive_key_from_pin L study_id pin in
      case read_file fs filepath of
        Inl e \<Rightarrow> (fs, Inl e)
      | Inr data \<Rightarrow>
          let encrypted = fernet_encrypt L key iv data;
              encrypted_path = filepath @ ''.enc''
          in (case write_file fs encrypted_path encrypted of
                (fs1, Inl e) \<Rightarrow> (fs1, Inl e)
              | (fs1, Inr u) \<Rightarrow>
                  (case os_remove fs1 filepath of
                     (fs2, Inl e) \<Rightarrow> (fs2, Inl e)
                   | (fs2, Inr v) \<Rightarrow> (fs2, Inr encrypted_path))))"

text \<open>
  Python's \<^verbatim>\<open>str.replace(old, new)\<close>: one pass from the left over non-overlapping
  occurrences; with an empty \<open>old\<close> the replacement is inserted around every character.
\<close>

function str_replace :: "string \<Rightarrow> string \<Rightarrow> string \<Rightarrow> string" where
  "str_replace old new s =
     (if old = [] then new @ concat (map (\<lambda>c. c # new) s)
      else if s = [] then []
      else if prefix old s then new @ str_replace old new (drop (length old) s)
      else hd s # str_replace old new (tl s))"
  by pat_completeness auto
termination
  by (relation "measure (\<lambda>(old, new, s). length s)") (auto simp: neq_Nil_conv)

declare str_replace.simps [simp del]

text \<open>\<^verbatim>\<open>os.path.basename\<close> on POSIX: what follows the last slash.\<close>

definition basename :: "path \<Rightarrow> path" where
  "basename p = rev (takeWhile (\<lambda>c. c \<noteq> CHR ''/'') (rev p))"

definition decrypt_file ::
  "crypto \<Rightarrow> path \<Rightarrow> string \<Rightarrow> string \<Rightarrow> filesystem \<Rightarrow> filesystem \<times> (error + path)" where
  "decrypt_file L encrypted_path study_id pin fs =
     (let key = derive_key_from_pin L study_id pin in
      case read_file fs encrypted_path of
        Inl e \<Rightarrow> (fs, Inl e)
      | Inr encrypted \<Rightarrow>
          (case fernet_decrypt L key encrypted of
             None \<Rightarrow> (fs, Inl (ValueError ''Invalid PIN or corrupted file''))
           | Some decrypted \<Rightarrow>
               let original_path = str_replace ''.enc'' '''' encrypted_path;
                   temp_path = ''/tmp/'' @ basename original_path
               in (case write_file fs temp_path decrypted of
                     (fs1, Inl e) \<Rightarrow> (fs1, Inl e)
                   | (fs1, Inr u) \<Rightarrow> (fs1, Inr temp_path))))"


text \<open>
  A small instance of the library interface and a file system with one recording, used to
  run the model on concrete inputs.  The instance keeps the one law the real scheme offers
  to its callers: a token opens under the key that made it.
\<close>

definition demo_crypto :: crypto where
  "demo_crypto =
     \<lparr> pbkdf2_hmac_sha256 = (\<lambda>len salt iters pw. salt @ pw),
       urlsafe_b64encode = (\<lambda>b. b),
       fernet_encrypt = (\<lambda>k iv d. k @ d),
       fernet_decrypt = (\<lambda>k t. if prefix k t then Some (drop (length k) t) else None) \<rparr>"

definition demo_fs :: filesystem where
  "demo_fs =
     \<lparr> files = [''/data/rec.mp4'' \<mapsto> ''video''], unreadable = {}, unwritable = {},
       nospace = {}, undeletable = {} \<rparr>"

text \<open>A recording in a directory where the caller may create files but not delete this one.\<close>

definition sticky_fs :: filesystem where
  "sticky_fs =
     \<lparr> files = [''/tmp/rec.mp4'' \<mapsto> ''video''], unreadable = {}, unwritable = {},
       nospace = {}, undeletable = {''/tmp/rec.mp4''} \<rparr>"

text \<open>Two sealed recordings with the same file name, of two studies.\<close>

definition two_studies_fs :: filesystem where
  "two_studies_fs =
     \<lparr> files = [''/a/rec.mp4.enc'' \<mapsto> ''s11234first'', ''/b/rec.mp4.enc'' \<mapsto> ''s25678second''],
       unreadable = {}, unwritable = {}, nospace = {}, undeletable = {} \<rparr>"

section \<open>Device reader (\<^verbatim>\<open>hsparc/input/gamepad.py\<close>, release 1.0.7)\<close>

text \<open>
  Python floats are modelled by the reals: every arithmetic operation is exact.  An IEEE
  double rounds each operation to 53 bits, which the model leaves out; the concrete
  inputs used below are ones on which the two agree.
\<close>

text \<open>\<^verbatim>\<open>int(x)\<close> on a float: truncation toward zero.\<close>

definition py_int :: "real \<Rightarrow> int" where
  "py_int x = (if 0 \<le> x then \<lfloor>x\<rfloor> else \<lceil>x\<rceil>)"

text \<open>Decimal rendering of a code number, as the f-strings \<^verbatim>\<open>f"ABS_{code}"\<close> do.\<close>

fun str_nat :: "nat \<Rightarrow> string" where
  "str_nat n =
     (if n < 10 then [char_of (48 + n)]
      else str_nat (n div 10) @ [char_of (48 + n mod 10)])"

declare str_nat.simps [simp del]

text \<open>
  The tables \<^verbatim>\<open>ecodes.ABS\<close>, \<^verbatim>\<open>ecodes.BTN\<close> and \<^verbatim>\<open>ecodes.KEY\<close> belong to the evdev
  package; an entry is one name or a tuple of names.
\<close>

datatype ecode_name = Name string | Names "string list"

type_synonym ecode_table = "nat \<rightharpoonup> ecode_name"

definition pick_name :: "ecode_name option \<Rightarrow> string option" where
  "pick_name nm =
     (case nm of
        None \<Rightarrow> None
      | Some (Names ss) \<Rightarrow>
          (case filter (\<lambda>s. s \<noteq> []) (rev ss) of s # rest \<Rightarrow> Some s | [] \<Rightarrow> None)
      | Some (Name s) \<Rightarrow> (if s \<noteq> [] then Some s else None))"

definition code_name_abs :: "ecode_table \<Rightarrow> nat \<Rightarrow> string" where
  "code_name_abs ABS c =
     (case pick_name (ABS c) of Some s \<Rightarrow> s | None \<Rightarrow> ''ABS_'' @ str_nat c)"

definition code_name_key :: "ecode_table \<Rightarrow> ecode_table \<Rightarrow> nat \<Rightarrow> string" where
  "code_name_key BTN KEY c =
     (case pick_name (BTN c) of
        Some s \<Rightarrow> s
      | None \<Rightarrow> (case pick_name (KEY c) of Some s \<Rightarrow> s | None \<Rightarrow> ''KEY_'' @ str_nat c))"

text \<open>The calibration record of one axis inside the reader, and its \<^verbatim>\<open>normalize\<close>.\<close>

record AxisCal =
  min_value :: int
  max_value :: int

definition normalize_cal :: "AxisCal \<Rightarrow> int \<Rightarrow> real" where
  "normalize_cal cal raw_value =
     (if min_value cal = max_value cal then 0
      else let normalized =
                 real_of_int (raw_value - min_value cal) / real_of_int (max_value cal - min_value cal)
           in (normalized * 2) - 1)"

text \<open>
  The calibration dictionary handed to the reader (\<^verbatim>\<open>CalibrationState.to_dict()\<close>): the
  axes with their extent, the buttons with their label.
\<close>

record axis_entry =
  entry_min :: int
  entry_max :: int
  entry_center :: int
  entry_label :: string

record calibration_dict =
  axes :: "(string \<times> axis_entry) list"
  buttons :: "(string \<times> string) list"

definition parse_calibrations :: "calibration_dict option \<Rightarrow> (string \<rightharpoonup> AxisCal)" where
  "parse_calibrations calibration_data =
     (case calibration_data of
        None \<Rightarrow> Map.empty
      | Some d \<Rightarrow>
          fold (\<lambda>(c, e) cals. cals(c \<mapsto> \<lparr>min_value = entry_min e, max_value = entry_max e\<rparr>))
               (axes d) Map.empty)"

datatype event_type = EV_SYN | EV_KEY | EV_ABS | EV_OTHER

record device_event =
  ev_type :: event_type
  ev_code :: nat
  ev_value :: int

datatype event_kind = Axis | Button

record InputEvent =
  event_id :: string
  recording_id :: string
  session_id :: string
  stream_id :: string
  t_ms :: int
  kind :: event_kind
  code :: string
  val :: "int option"
  is_press :: "bool option"

record Reader =
  reader_stream_id :: string
  reader_recording_id :: string
  reader_session_id :: string
  allowed_inputs :: "string list option"
  axis_calibrations :: "string \<rightharpoonup> AxisCal"
  ABS :: ecode_table
  BTN :: ecode_table
  KEY :: ecode_table

text \<open>
  Python's truth value of \<^verbatim>\<open>self.allowed_inputs and code not in self.allowed_inputs\<close>:
  \<^verbatim>\<open>None\<close> and the empty list are both false.
\<close>

definition filtered_out :: "Reader \<Rightarrow> string \<Rightarrow> bool" where
  "filtered_out r c =
     (case allowed_inputs r of
        None \<Rightarrow> False
      | Some xs \<Rightarrow> xs \<noteq> [] \<and> c \<notin> set xs)"

text \<open>
  One pass through the body of the read loop of \<^verbatim>\<open>_Reader.run\<close>: the event read from
  the device, the clock reading \<open>now\<close> and the fresh identifier \<open>uid\<close> give the row
  that is committed, or \<open>None\<close> when the event is skipped.
\<close>

definition run_event :: "Reader \<Rightarrow> real \<Rightarrow> string \<Rightarrow> device_event \<Rightarrow> InputEvent option" where
  "run_event r now uid ev =
     (if ev_type ev = EV_SYN then None
      else
        let t = py_int now in
        if ev_type ev = EV_ABS then
          (let c = code_name_abs (ABS r) (ev_code ev) in
           if filtered_out r c then None
           else
             let v = (case axis_calibrations r c of
                        Some cal \<Rightarrow> py_int (normalize_cal cal (ev_value ev) * 1000)
                      | None \<Rightarrow> ev_value ev)
             in Some \<lparr>event_id = uid, recording_id = reader_recording_id r,
                       session_id = reader_session_id r, stream_id = reader_stream_id r,
                       t_ms = t, kind = Axis, code = c, val = Some v, is_press = None\<rparr>)
        else if ev_type ev = EV_KEY then
          (let c = code_name_key (BTN r) (KEY r) (ev_code ev) in
           if filtered_out r c then None
           else
             let v = ev_value ev;
                 p = (if v = 1 then Some True else if v = 0 then Some False else None)
             in Some \<lparr>event_id = uid, recording_id = reader_recording_id r,
                       session_id = reader_session_id r, stream_id = reader_stream_id r,
                       t_ms = t, kind = Button, code = c, val = Some v, is_press = p\<rparr>)
        else None)"

text \<open>A reader for a stick whose X axis was calibrated to the extent 0..6.\<close>

definition demo_tables :: ecode_table where
  "demo_tables = [0 \<mapsto> Name ''ABS_X'', 3 \<mapsto> Name ''ABS_RX'']"

definition demo_reader :: "string list option \<Rightarrow> Reader" where
  "demo_reader allowed =
     \<lparr>reader_stream_id = ''st'', reader_recording_id = ''rec'', reader_session_id = ''sess'',
      allowed_inputs = allowed,
      axis_calibrations =
        parse_calibrations
          (Some \<lparr>axes = [(''ABS_X'', \<lparr>entry_min = 0, entry_max = 6, entry_center = 3,
                                       entry_label = ''Arousal''\<rparr>)],
                 buttons = []\<rparr>),
      ABS = demo_tables, BTN = Map.empty, KEY = Map.empty\<rparr>"


text \<open>The symbolic code under which an axis or button event is looked up and stored.\<close>

definition symbolic_code :: "Reader \<Rightarrow> device_event \<Rightarrow> string" where
  "symbolic_code r ev =
     (if ev_type ev = EV_ABS then code_name_abs (ABS r) (ev_code ev)
      else code_name_key (BTN r) (KEY r) (ev_code ev))"



section \<open>Alignment of traces (\<^verbatim>\<open>hsparc/analysis\<close>)\<close>

text \<open>
  A trace is the dictionary \<^verbatim>\<open>{"times_ms": array, "values": array}\<close> (the field \<open>values\<close> is \<open>trace_values\<close> here); a collection of
  named traces is a dictionary in insertion order.  The numpy functions the code calls are
  written out for the arguments it passes.
\<close>

record trace =
  times_ms :: "real list"
  trace_values :: "real list"

text \<open>
  \<^verbatim>\<open>np.interp(x, xp, fp)\<close>: piecewise linear through the points \<open>(xp, fp)\<close>, constant
  outside them.  \<open>interp_seg\<close> walks to the last sample point at or before \<open>x\<close> and
  interpolates toward the next one.
\<close>

fun interp_seg :: "real \<Rightarrow> real list \<Rightarrow> real list \<Rightarrow> real" where
  "interp_seg x (x0 # x1 # xs) (y0 # y1 # ys) =
     (if x < x1 then y0 + (y1 - y0) / (x1 - x0) * (x - x0)
      else interp_seg x (x1 # xs) (y1 # ys))"
| "interp_seg x xs (y # ys) = y"
| "interp_seg x xs [] = 0"

definition interp_point :: "real list \<Rightarrow> real list \<Rightarrow> real \<Rightarrow> real" where
  "interp_point xp fp x =
     (if x < hd xp then hd fp
      else if last xp < x then last fp
      else interp_seg x xp fp)"

definition np_interp :: "real list \<Rightarrow> real list \<Rightarrow> real list \<Rightarrow> error + real list" where
  "np_interp x xp fp =
     (if xp = [] then Inl (ValueError ''array of sample points is empty'')
      else if length xp \<noteq> length fp then Inl (ValueError ''fp and xp are not of the same length.'')
      else Inr (map (interp_point xp fp) x))"

text \<open>\<^verbatim>\<open>np.unique\<close>: the sorted distinct elements.\<close>

definition np_unique :: "real list \<Rightarrow> real list" where
  "np_unique xs = sort (remdups xs)"

text \<open>\<^verbatim>\<open>ComprehensiveTraceAnalyzer._align_traces\<close>.\<close>

definition align_traces :: "trace \<Rightarrow> trace \<Rightarrow> error + (real list \<times> real list \<times> real list)" where
  "align_traces data1 data2 =
     (let times1 = times_ms data1; values1 = trace_values data1;
          times2 = times_ms data2; values2 = trace_values data2
      in if times1 = [] \<or> times2 = [] then Inl IndexError
         else
           let min_time = max (hd times1) (hd times2);
               max_time = min (last times1) (last times2);
               all_times = np_unique (times1 @ times2);
               common_times = filter (\<lambda>t. min_time \<le> t \<and> t \<le> max_time) all_times
           in (case np_interp common_times times1 values1 of
                 Inl e \<Rightarrow> Inl e
               | Inr aligned_values1 \<Rightarrow>
                   (case np_interp common_times times2 values2 of
                      Inl e \<Rightarrow> Inl e
                    | Inr aligned_values2 \<Rightarrow> Inr (common_times, aligned_values1, aligned_values2))))"

text \<open>Interpolating every trace of a dictionary in turn; the first exception ends the loop.\<close>

fun interp_all :: "real list \<Rightarrow> (string \<times> trace) list \<Rightarrow> error + (string \<times> real list) list" where
  "interp_all common_times [] = Inr []"
| "interp_all common_times ((name, data) # rest) =
     (case np_interp common_times (times_ms data) (trace_values data) of
        Inl e \<Rightarrow> Inl e
      | Inr v \<Rightarrow>
          (case interp_all common_times rest of
             Inl e \<Rightarrow> Inl e
           | Inr vs \<Rightarrow> Inr ((name, v) # vs)))"

text \<open>\<^verbatim>\<open>max(...)\<close> and \<open>min(...)\<close> over a non-empty sequence.\<close>

definition maximum :: "real list \<Rightarrow> real" where
  "maximum xs = fold max (tl xs) (hd xs)"

definition minimum :: "real list \<Rightarrow> real" where
  "minimum xs = fold min (tl xs) (hd xs)"

text \<open>\<^verbatim>\<open>ComprehensiveTraceAnalyzer._align_multiple_traces\<close>.\<close>

definition align_multiple_traces ::
  "(string \<times> trace) list \<Rightarrow> error + (real list \<times> (string \<times> real list) list)" where
  "align_multiple_traces trace_data =
     (let all_times_list = map (\<lambda>(name, data). times_ms data) trace_data
      in if [] \<in> set all_times_list then Inl IndexError
         else if all_times_list = [] then Inl (ValueError ''max() arg is an empty sequence'')
         else
           let min_time = maximum (map hd all_times_list);
               max_time = minimum (map last all_times_list);
               all_times_concat = concat all_times_list;
               unique_times = np_unique all_times_concat;
               common_times = filter (\<lambda>t. min_time \<le> t \<and> t \<le> max_time) unique_times
           in (case interp_all common_times trace_data of
                 Inl e \<Rightarrow> Inl e
               | Inr aligned_values \<Rightarrow> Inr (common_times, aligned_values)))"

text \<open>\<^verbatim>\<open>np.arange(start, stop, 1, dtype=float)\<close>.\<close>

definition np_arange :: "real \<Rightarrow> real \<Rightarrow> real list" where
  "np_arange start stop = map (\<lambda>i. start + real i) [0 ..< nat \<lceil>stop - start\<rceil>]"

text \<open>
  \<^verbatim>\<open>ConvergenceAnalyzer._align_time_series\<close>; the result \<open>None\<close> of the source is
  \<open>Inr None\<close>.  Traces with fewer than two samples are passed over.
\<close>

fun interp_participants ::
  "real list \<Rightarrow> (string \<times> trace) list \<Rightarrow> error + (string \<times> real list) list" where
  "interp_participants common_times [] = Inr []"
| "interp_participants common_times ((participant, data) # rest) =
     (if length (times_ms data) < 2 then interp_participants common_times rest
      else
        (case np_interp common_times (times_ms data) (trace_values data) of
           Inl e \<Rightarrow> Inl e
         | Inr interpolated \<Rightarrow>
             (case interp_participants common_times rest of
                Inl e \<Rightarrow> Inl e
              | Inr vs \<Rightarrow> Inr ((participant, interpolated) # vs))))"

definition align_time_series ::
  "(string \<times> trace) list \<Rightarrow> error + (real list \<times> (string \<times> real list) list) option" where
  "align_time_series participant_data =
     (if participant_data = [] then Inr None
      else
        let nonempty = filter (\<lambda>ts. ts \<noteq> []) (map (\<lambda>(p, data). times_ms data) participant_data)
        in if nonempty = [] then Inl (ValueError ''max() arg is an empty sequence'')
           else
             let min_time0 = maximum (map hd nonempty);
                 max_time0 = minimum (map last nonempty);
                 min_time = (if min_time0 \<ge> max_time0 then minimum (map hd nonempty) else min_time0);
                 max_time = (if min_time0 \<ge> max_time0 then maximum (map last nonempty) else max_time0)
             in if min_time \<ge> max_time then Inr None
                else
                  let common_times = np_arange min_time max_time
                  in (case interp_participants common_times participant_data of
                        Inl e \<Rightarrow> Inl e
                      | Inr aligned_signals \<Rightarrow>
                          if length aligned_signals < 2 then Inr None
                          else Inr (Some (common_times, aligned_signals))))"

text \<open>
  The resampling the specification describes, in its own words: the value at a point of
  the common timeline is the most recent sample at or before that point, and the first
  sample before the series begins.
\<close>

definition carried_forward :: "real list \<Rightarrow> real list \<Rightarrow> real \<Rightarrow> real" where
  "carried_forward tms vs t =
     (case filter (\<lambda>(s, v). s \<le> t) (zip tms vs) of
        [] \<Rightarrow> hd vs
      | p # ps \<Rightarrow> snd (last (p # ps)))"


section \<open>Conversion to regular samples (\<^verbatim>\<open>hsparc/utils/timeseries_converter.py\<close>)\<close>












section \<open>Pairwise analysis (\<^verbatim>\<open>hsparc/analysis/comprehensive_analyzer.py\<close>)\<close>

text \<open>
  A float that may be \<^verbatim>\<open>nan\<close> is a \<open>real option\<close>, \<open>None\<close> standing for
  \<^verbatim>\<open>nan\<close>.  The scipy functions are parameters: \<^verbatim>\<open>pearsonr\<close> and
  \<^verbatim>\<open>spearmanr\<close> return a coefficient and a p-value or raise, and
  \<^verbatim>\<open>find_peaks(x, distance=d)\<close> returns the indices of the peaks.
\<close>

record scipy =
  pearsonr :: "real list \<Rightarrow> real list \<Rightarrow> error + (real option \<times> real option)"
  spearmanr :: "real list \<Rightarrow> real list \<Rightarrow> error + (real option \<times> real option)"
  find_peaks :: "real list \<Rightarrow> nat \<Rightarrow> nat list"

record ComprehensiveTraceAnalyzer =
  convergence_threshold :: real
  divergence_threshold :: real
  change_sensitivity :: real
  window_ms :: int

definition default_analyzer :: ComprehensiveTraceAnalyzer where
  "default_analyzer =
     \<lparr>convergence_threshold = 3 / 10, divergence_threshold = 7 / 10,
      change_sensitivity = 2, window_ms = 2000\<rparr>"

record PairwiseResults =
  trace1_name :: string
  trace2_name :: string
  pearson_r :: "real option"
  pearson_p :: "real option"
  spearman_r :: "real option"
  spearman_p :: "real option"
  mean_distance :: real
  min_distance :: real
  max_distance :: real
  convergence_events :: "(int \<times> int \<times> real) list"
  divergence_events :: "(int \<times> int \<times> real) list"
  optimal_lag_ms :: int
  max_cross_correlation :: "real option"
  coherence_score :: "real option"
  simultaneous_peaks :: "int list"
  opposite_movements :: "int list"
  result_times_ms :: "real list"
  trace1_values :: "real list"
  trace2_values :: "real list"
  distance_over_time :: "real list"

text \<open>
  The result container; its fields \<^verbatim>\<open>single\<close> and \<^verbatim>\<open>multi\<close> stay \<^verbatim>\<open>None\<close> on
  the paths modelled here, and the summary text, a rendering of the other fields, is left
  out.
\<close>

record ComprehensiveResults =
  analysis_type :: string
  pairwise :: "PairwiseResults option"

definition empty_results :: ComprehensiveResults where
  "empty_results = \<lparr>analysis_type = ''none'', pairwise = None\<rparr>"

text \<open>numpy on non-empty arrays.\<close>

definition np_mean :: "real list \<Rightarrow> real" where
  "np_mean xs = sum_list xs / real (length xs)"

definition np_std :: "real list \<Rightarrow> real" where
  "np_std xs = sqrt (np_mean (map (\<lambda>x. (x - np_mean xs)\<^sup>2) xs))"

definition np_diff :: "real list \<Rightarrow> real list" where
  "np_diff xs = map (\<lambda>(a, b). b - a) (zip xs (tl xs))"

text \<open>\<^verbatim>\<open>np.argmax\<close>: the first index at which the maximum is taken.\<close>

fun argmax_from :: "real list \<Rightarrow> nat \<Rightarrow> nat \<Rightarrow> real \<Rightarrow> nat" where
  "argmax_from [] i best_i best = best_i"
| "argmax_from (x # xs) i best_i best =
     (if best < x then argmax_from xs (i + 1) i x else argmax_from xs (i + 1) best_i best)"

definition np_argmax :: "real list \<Rightarrow> nat" where
  "np_argmax xs = argmax_from (tl xs) 1 0 (hd xs)"

text \<open>
  \<^verbatim>\<open>np.correlate(a, v, mode='full')\<close> for two arrays of the same length \<open>N\<close>: entry
  \<open>m\<close>, for the lag \<open>m - (N - 1)\<close>, sums \<open>a[i] * v[i + (N - 1) - m]\<close> over the
  indices inside both arrays.
\<close>

definition np_correlate_full :: "real list \<Rightarrow> real list \<Rightarrow> real list" where
  "np_correlate_full a v =
     (let N = length a
      in map (\<lambda>m. \<Sum>i \<leftarrow> [0 ..< N].
                     (if m \<le> i + (N - 1) \<and> i + (N - 1) - m < N
                      then a ! i * v ! (i + (N - 1) - m) else 0))
             [0 ..< 2 * N - 1])"

text \<open>
  \<^verbatim>\<open>_detect_convergence_divergence\<close>.  The loop state: both event lists, the two flags
  and the start index, which the convergence and the divergence tracking share.
\<close>

record cd_state =
  conv_acc :: "(int \<times> int \<times> real) list"
  div_acc :: "(int \<times> int \<times> real) list"
  in_convergence :: bool
  in_divergence :: bool
  start_idx :: nat

definition slice :: "real list \<Rightarrow> nat \<Rightarrow> nat \<Rightarrow> real list" where
  "slice xs a b = take (b - a) (drop a xs)"

definition cd_step ::
  "ComprehensiveTraceAnalyzer \<Rightarrow> real list \<Rightarrow> real list \<Rightarrow> nat \<Rightarrow> cd_state \<Rightarrow> cd_state" where
  "cd_step self tms norm_dist i st =
     (let d = norm_dist ! i;
          st1 =
            (if d < convergence_threshold self \<and> \<not> in_convergence st
               then st\<lparr>start_idx := i, in_convergence := True\<rparr>
             else if d \<ge> convergence_threshold self \<and> in_convergence st
               then
                 (let duration_ms = py_int (tms ! (i - 1) - tms ! start_idx st)
                  in (if duration_ms > 500
                      then st\<lparr>conv_acc := conv_acc st @
                                [(py_int (tms ! start_idx st), py_int (tms ! (i - 1)),
                                  1 - np_mean (slice norm_dist (start_idx st) i))]\<rparr>
                      else st)\<lparr>in_convergence := False\<rparr>)
             else st)
      in (if d > divergence_threshold self \<and> \<not> in_divergence st1
            then st1\<lparr>start_idx := i, in_divergence := True\<rparr>
          else if d \<le> divergence_threshold self \<and> in_divergence st1
            then
              (let duration_ms = py_int (tms ! (i - 1) - tms ! start_idx st1)
               in (if duration_ms > 500
                   then st1\<lparr>div_acc := div_acc st1 @
                             [(py_int (tms ! start_idx st1), py_int (tms ! (i - 1)),
                               np_mean (slice norm_dist (start_idx st1) i))]\<rparr>
                   else st1)\<lparr>in_divergence := False\<rparr>)
          else st1))"

definition detect_convergence_divergence ::
  "ComprehensiveTraceAnalyzer \<Rightarrow> real list \<Rightarrow> real list
     \<Rightarrow> (int \<times> int \<times> real) list \<times> (int \<times> int \<times> real) list" where
  "detect_convergence_divergence self tms distances =
     (if length distances < 10 then ([], [])
      else
        let d_min = minimum distances; d_max = maximum distances
        in if d_max - d_min < 1 / 1000 then ([], [])
           else
             let norm_dist = map (\<lambda>d. (d - d_min) / (d_max - d_min)) distances;
                 st = fold (cd_step self tms norm_dist) [0 ..< length norm_dist]
                        \<lparr>conv_acc = [], div_acc = [], in_convergence = False,
                         in_divergence = False, start_idx = 0\<rparr>
             in (conv_acc st, div_acc st))"

text \<open>
  \<^verbatim>\<open>_compute_lead_lag\<close>.  When one of the standard deviations is zero every entry of
  the normalised correlation is \<^verbatim>\<open>0/0 = nan\<close>, and \<^verbatim>\<open>np.argmax\<close> then answers 0.
\<close>

definition compute_lead_lag :: "real list \<Rightarrow> real list \<Rightarrow> real list \<Rightarrow> int \<times> real option" where
  "compute_lead_lag values1 values2 tms =
     (if length values1 < 10 then (0, Some 0)
      else
        let N = length values1;
            denom = np_std values1 * np_std values2 * real N;
            raw = np_correlate_full (map (\<lambda>x. x - np_mean values1) values1)
                                    (map (\<lambda>x. x - np_mean values2) values2);
            correlation = map (\<lambda>c. c / denom) raw;
            max_idx = (if denom = 0 then 0 else np_argmax (map abs correlation));
            optimal_lag_samples = int max_idx - (int N - 1);
            optimal_lag = (if length tms > 1
                             then py_int (real_of_int optimal_lag_samples
                                          * ((last tms - hd tms) / real (length tms - 1)))
                           else 0);
            max_cc = (if denom = 0 then None else Some (correlation ! max_idx))
        in (optimal_lag, max_cc))"

text \<open>\<^verbatim>\<open>_compute_coherence\<close>; the bare \<^verbatim>\<open>except\<close> turns any exception into 0.\<close>

definition compute_coherence :: "scipy \<Rightarrow> real list \<Rightarrow> real list \<Rightarrow> real option" where
  "compute_coherence L values1 values2 =
     (if length values1 < 10 then Some 0
      else
        let diff1 = np_diff values1; diff2 = np_diff values2
        in if length diff1 > 0 \<and> length diff2 > 0
           then (case pearsonr L diff1 diff2 of
                   Inl e \<Rightarrow> Some 0
                 | Inr (corr, p) \<Rightarrow> map_option abs corr)
           else Some 0)"

text \<open>\<^verbatim>\<open>_detect_simultaneous_peaks\<close>: the inner loop stops at the first peak close enough.\<close>

definition detect_simultaneous_peaks ::
  "scipy \<Rightarrow> real list \<Rightarrow> real list \<Rightarrow> real list \<Rightarrow> int list" where
  "detect_simultaneous_peaks L tms values1 values2 =
     (if length values1 < 3 then []
      else
        let peaks1 = find_peaks L values1 10;
            peaks2 = find_peaks L values2 10;
            window_ms = 500
        in concat (map (\<lambda>p1.
                     (case filter (\<lambda>p2. \<bar>tms ! p1 - tms ! p2\<bar> < window_ms) peaks2 of
                        [] \<Rightarrow> []
                      | p2 # rest \<Rightarrow> [py_int ((tms ! p1 + tms ! p2) / 2)]))
                   peaks1))"

text \<open>\<^verbatim>\<open>_detect_opposite_movements\<close>.\<close>

definition detect_opposite_movements :: "real list \<Rightarrow> real list \<Rightarrow> real list \<Rightarrow> int list" where
  "detect_opposite_movements tms values1 values2 =
     (if length values1 < 2 then []
      else
        let diff1 = np_diff values1;
            diff2 = np_diff values2;
            threshold = max (np_std diff1) (np_std diff2) * (1 / 2);
            opposite = filter (\<lambda>i. diff1 ! i * diff2 ! i < 0
                                   \<and> \<bar>diff1 ! i\<bar> > threshold \<and> \<bar>diff2 ! i\<bar> > threshold)
                              [0 ..< min (length diff1) (length diff2)]
        in map (\<lambda>i. py_int (tms ! i)) (filter (\<lambda>i. i + 1 < length tms) opposite))"

text \<open>
  \<^verbatim>\<open>_analyze_pairwise\<close> on the two named traces of the dictionary.  The distance of two
  one-element vectors, \<^verbatim>\<open>euclidean([v1], [v2])\<close>, is \<open>\<bar>v1 - v2\<bar>\<close>.
\<close>

definition analyze_pairwise ::
  "scipy \<Rightarrow> ComprehensiveTraceAnalyzer \<Rightarrow> (string \<times> trace) \<Rightarrow> (string \<times> trace)
     \<Rightarrow> error + ComprehensiveResults" where
  "analyze_pairwise L self named1 named2 =
     (case align_traces (snd named1) (snd named2) of
        Inl e \<Rightarrow> Inl e
      | Inr (tms, values1, values2) \<Rightarrow>
          if length tms < 2 then Inr empty_results
          else
            (case pearsonr L values1 values2 of
               Inl e \<Rightarrow> Inl e
             | Inr (pr, pp) \<Rightarrow>
                 (case spearmanr L values1 values2 of
                    Inl e \<Rightarrow> Inl e
                  | Inr (sr, sp) \<Rightarrow>
                      let distances = map (\<lambda>(v1, v2). \<bar>v1 - v2\<bar>) (zip values1 values2);
                          events = detect_convergence_divergence self tms distances;
                          lead_lag = compute_lead_lag values1 values2 tms
                      in Inr \<lparr>analysis_type = ''pairwise'',
                              pairwise = Some
                                \<lparr>trace1_name = fst named1, trace2_name = fst named2,
                                 pearson_r = pr, pearson_p = pp,
                                 spearman_r = sr, spearman_p = sp,
                                 mean_distance = np_mean distances,
                                 min_distance = minimum distances,
                                 max_distance = maximum distances,
                                 convergence_events = fst events,
                                 divergence_events = snd events,
                                 optimal_lag_ms = fst lead_lag,
                                 max_cross_correlation = snd lead_lag,
                                 coherence_score = compute_coherence L values1 values2,
                                 simultaneous_peaks = detect_simultaneous_peaks L tms values1 values2,
                                 opposite_movements = detect_opposite_movements tms values1 values2,
                                 result_times_ms = tms,
                                 trace1_values = values1, trace2_values = values2,
                                 distance_over_time = distances\<rparr>\<rparr>)))"

text \<open>A stand-in for scipy to run the analysis on concrete traces: no peaks, no statistics.\<close>

definition demo_scipy :: scipy where
  "demo_scipy =
     \<lparr>pearsonr = (\<lambda>x y. if length x < 2 then Inl (ValueError ''x and y must have length at least 2'')
                          else Inr (None, None)),
      spearmanr = (\<lambda>x y. Inr (None, None)),
      find_peaks = (\<lambda>x d. [])\<rparr>"


section \<open>Creation of streams (\<^verbatim>\<open>recorder.py\<close>, \<^verbatim>\<open>observer.py\<close>)\<close>

text \<open>
  The rows of the store, without their creation timestamps.  The tables are lists in
  commit order.  \<^verbatim>\<open>uuid4().hex\<close> is a supply of identifiers read at a counter.
\<close>

record Recording =
  rec_id :: string
  case_id :: string
  video_path :: string
  rec_notes :: string

record ObserverSession =
  sess_id :: string
  sess_recording_id :: string
  label :: string
  recognition_check_required :: bool
  recognition_check_passed :: "bool option"

record InputStream =
  is_id :: string
  is_session_id :: string
  device_name :: string
  profile_id :: string
  stream_alias :: string
  construct_mapping :: "(string \<times> string) list"
  calibration_data :: "calibration_dict option"
  stream_allowed_inputs :: "string list option"

record database =
  recordings :: "Recording list"
  sessions :: "ObserverSession list"
  streams :: "InputStream list"
  events :: "InputEvent list"


























section \<open>Properties of the encryption module\<close>

subsection \<open>String helpers\<close>

lemma str_replace_Nil: "old \<noteq> [] \<Longrightarrow> str_replace old new [] = []"
  by (simp add: str_replace.simps)

lemma prefix_append_sep:
  assumes "c \<notin> set old"
  shows "prefix old (xs @ c # ys) \<longleftrightarrow> prefix old xs"
proof
  assume "prefix old (xs @ c # ys)"
  then have "prefix old xs \<or> (\<exists>us. old = xs @ us \<and> prefix us (c # ys))"
    by (simp add: prefix_append)
  then show "prefix old xs"
  proof
    assume "prefix old xs" then show ?thesis .
  next
    assume "\<exists>us. old = xs @ us \<and> prefix us (c # ys)"
    then obtain us where us: "old = xs @ us" "prefix us (c # ys)" by blast
    show ?thesis
    proof (cases us)
      case Nil with us show ?thesis by simp
    next
      case (Cons u us')
      with us have "c \<in> set old" by (simp add: prefix_Cons)
      with assms show ?thesis by simp
    qed
  qed
next
  assume "prefix old xs" then show "prefix old (xs @ c # ys)" by (simp add: prefix_prefix)
qed

lemma str_replace_sep:
  assumes "old \<noteq> []" "c \<notin> set old"
  shows "str_replace old new (xs @ c # ys) = str_replace old new xs @ c # str_replace old new ys"
  using assms
proof (induction old new xs rule: str_replace.induct)
  case (1 old new s)
  show ?case
  proof (cases "s = []")
    case True
    from 1(3,4) have "\<not> prefix old (c # ys)" by (cases old) (auto simp: prefix_Cons)
    with True 1(3) show ?thesis
      by (simp add: str_replace.simps[of old new "c # ys"] str_replace_Nil)
  next
    case False
    note ne = this
    show ?thesis
    proof (cases "prefix old s")
      case True
      then have len: "length old \<le> length s" by (simp add: prefix_length_le)
      have p: "prefix old (s @ c # ys)" using True by (simp add: prefix_prefix)
      have e1: "str_replace old new (s @ c # ys) = new @ str_replace old new (drop (length old) s @ c # ys)"
        using p 1(3) ne len by (simp add: str_replace.simps[of old new "s @ c # ys"])
      have e2: "str_replace old new (drop (length old) s @ c # ys)
                  = str_replace old new (drop (length old) s) @ c # str_replace old new ys"
        using 1(1)[OF 1(3) ne True 1(3,4)] .
      have e3: "str_replace old new s = new @ str_replace old new (drop (length old) s)"
        using True 1(3) ne by (simp add: str_replace.simps[of old new s])
      show ?thesis by (simp only: e1 e2 e3 append_assoc)
    next
      case False
      then have p: "\<not> prefix old (s @ c # ys)" using prefix_append_sep[OF 1(4)] by simp
      have e1: "str_replace old new (s @ c # ys) = hd s # str_replace old new (tl s @ c # ys)"
        using p 1(3) ne by (simp add: str_replace.simps[of old new "s @ c # ys"])
      have e2: "str_replace old new (tl s @ c # ys)
                  = str_replace old new (tl s) @ c # str_replace old new ys"
        using 1(2)[OF 1(3) ne False 1(3,4)] .
      have e3: "str_replace old new s = hd s # str_replace old new (tl s)"
        using False 1(3) ne by (simp add: str_replace.simps[of old new s])
      show ?thesis by (simp only: e1 e2 e3 append_Cons)
    qed
  qed
qed

lemma set_str_replace_del_aux:
  "old \<noteq> [] \<Longrightarrow> new = [] \<Longrightarrow> set (str_replace old new s) \<subseteq> set s"
proof (induction old new s rule: str_replace.induct)
  case (1 old new s)
  show ?case
  proof (cases "s = []")
    case True then show ?thesis using 1(3) by (simp add: str_replace_Nil)
  next
    case False
    show ?thesis
    proof (cases "prefix old s")
      case True
      have "str_replace old new s = new @ str_replace old new (drop (length old) s)"
        using True False 1(3) by (simp add: str_replace.simps[of old new s])
      then have e: "str_replace old new s = str_replace old new (drop (length old) s)"
        using 1(4) by simp
      have "set (str_replace old new (drop (length old) s)) \<subseteq> set (drop (length old) s)"
        using 1(1)[OF 1(3) False True 1(3,4)] .
      also have "\<dots> \<subseteq> set s" by (rule set_drop_subset)
      finally show ?thesis unfolding e .
    next
      case F: False
      have e: "str_replace old new s = hd s # str_replace old new (tl s)"
        using F False 1(3) by (simp add: str_replace.simps[of old new s])
      have ih: "set (str_replace old new (tl s)) \<subseteq> set (tl s)"
        using 1(2)[OF 1(3) False F 1(3,4)] .
      obtain x xs where s: "s = x # xs" using False by (cases s) auto
      show ?thesis unfolding e using ih unfolding s by auto
    qed
  qed
qed

lemma set_str_replace_del: "old \<noteq> [] \<Longrightarrow> set (str_replace old [] s) \<subseteq> set s"
  by (rule set_str_replace_del_aux) simp_all

lemma basename_no_sep:
  assumes "CHR ''/'' \<notin> set b"
  shows "basename b = b"
proof -
  have u: "takeWhile (\<lambda>c. c \<noteq> CHR ''/'') (rev b) = rev b"
    using assms by (auto simp: takeWhile_eq_all_conv)
  show ?thesis unfolding basename_def by (simp only: u rev_rev_ident)
qed

lemma basename_sep:
  assumes "CHR ''/'' \<notin> set b"
  shows "basename (d @ CHR ''/'' # b) = b"
proof -
  have t: "takeWhile (\<lambda>c. c \<noteq> CHR ''/'') (rev b @ CHR ''/'' # rev d)
          = takeWhile (\<lambda>c. c \<noteq> CHR ''/'') (rev b)"
    by (rule takeWhile_tail) simp
  have u: "takeWhile (\<lambda>c. c \<noteq> CHR ''/'') (rev b) = rev b"
    using assms by (auto simp: takeWhile_eq_all_conv)
  have r: "rev (d @ CHR ''/'' # b) = rev b @ CHR ''/'' # rev d" by simp
  show ?thesis unfolding basename_def by (simp only: r t u rev_rev_ident)
qed

lemma split_basename:
  obtains b where "CHR ''/'' \<notin> set b" "p = b \<or> (\<exists>d. p = d @ CHR ''/'' # b)"
proof (cases "CHR ''/'' \<in> set p")
  case False then show ?thesis using that by blast
next
  case True
  then have "CHR ''/'' \<in> set (rev p)" by simp
  from split_list_first[OF this]
  obtain a b where ab: "rev p = a @ CHR ''/'' # b" "CHR ''/'' \<notin> set a"
    by blast
  then have "rev (rev p) = rev (a @ CHR ''/'' # b)" by simp
  then have "p = rev b @ CHR ''/'' # rev a" by simp
  moreover have "CHR ''/'' \<notin> set (rev a)" using ab by simp
  ultimately show ?thesis using that by blast
qed

lemma basename_str_replace_enc:
  "basename (str_replace ''.enc'' [] p) = str_replace ''.enc'' [] (basename p)"
proof -
  obtain b where b: "CHR ''/'' \<notin> set b" "p = b \<or> (\<exists>d. p = d @ CHR ''/'' # b)"
    by (rule split_basename)
  have nosl: "CHR ''/'' \<notin> set (str_replace ''.enc'' [] b)"
    using set_str_replace_del[of "''.enc''" b] b(1) by auto
  from b(2) show ?thesis
  proof
    assume "p = b"
    then show ?thesis using nosl b(1) by (simp add: basename_no_sep)
  next
    assume "\<exists>d. p = d @ CHR ''/'' # b"
    then obtain d where d: "p = d @ CHR ''/'' # b" ..
    have "str_replace ''.enc'' [] (d @ CHR ''/'' # b)
           = str_replace ''.enc'' [] d @ CHR ''/'' # str_replace ''.enc'' [] b"
      by (rule str_replace_sep) simp_all
    then show ?thesis using d nosl b(1) by (simp add: basename_sep)
  qed
qed

subsection \<open>What a successful call leaves behind\<close>

lemma encrypt_file_success:
  assumes "encrypt_file L iv p sid pin fs = (fs1, Inr sealed)"
  shows "\<exists>d. files fs p = Some d \<and> sealed = p @ ''.enc''
          \<and> files fs1 sealed = Some (fernet_encrypt L (derive_key_from_pin L sid pin) iv d)
          \<and> unreadable fs1 = unreadable fs \<and> unwritable fs1 = unwritable fs
          \<and> nospace fs1 = nospace fs \<and> undeletable fs1 = undeletable fs"
  using assms
  by (auto simp: encrypt_file_def read_file_def write_file_def os_remove_def Let_def
           split: option.splits if_splits sum.splits prod.splits)

lemma decrypt_file_success:
  assumes "decrypt_file L sp sid pin fs = (fs', Inr tmp)"
  shows "\<exists>blob d. read_file fs sp = Inr blob
           \<and> fernet_decrypt L (derive_key_from_pin L sid pin) blob = Some d
           \<and> tmp = ''/tmp/'' @ basename (str_replace ''.enc'' [] sp)
           \<and> fs' = fs\<lparr>files := (files fs)(tmp \<mapsto> d)\<rparr>"
  using assms
  by (auto simp: decrypt_file_def write_file_def Let_def
           split: option.splits if_splits sum.splits prod.splits)

lemma demo_law:
  "\<forall>k iv d. fernet_decrypt demo_crypto k (fernet_encrypt demo_crypto k iv d) = Some d"
  by (simp add: demo_crypto_def)

lemma demo_encrypt:
  "snd (encrypt_file demo_crypto ''iv'' ''/data/rec.mp4'' ''s1'' ''1234'' demo_fs)
     = Inr ''/data/rec.mp4.enc''"
  by (simp add: encrypt_file_def demo_crypto_def demo_fs_def read_file_def write_file_def
        os_remove_def derive_key_from_pin_def Let_def)

subsection \<open>Round trip\<close>

text \<open>
  Claim C3.  Whenever \<open>encrypt_file\<close> has sealed a file, \<open>decrypt_file\<close> called
  on the sealed path with the same study id and PIN succeeds and the file it writes holds
  exactly the bytes of the original plaintext.  The library contributes the law that a
  Fernet token opens under the key that made it; the operating system must let the sealed
  file be read and the temporary file be written.
\<close>

theorem encrypt_decrypt_roundtrip:
  assumes law: "\<forall>k iv d. fernet_decrypt L k (fernet_encrypt L k iv d) = Some d"
    and enc: "encrypt_file L iv p sid pin fs = (fs1, Inr sealed)"
    and rd: "sealed \<notin> unreadable fs"
    and wr: "''/tmp/'' @ basename (str_replace ''.enc'' [] sealed) \<notin> unwritable fs \<union> nospace fs"
  shows "\<exists>fs2 tmp d. decrypt_file L sealed sid pin fs1 = (fs2, Inr tmp)
            \<and> files fs p = Some d \<and> files fs2 tmp = Some d"
proof -
  from encrypt_file_success[OF enc] obtain d where
    d: "files fs p = Some d" "sealed = p @ ''.enc''"
       "files fs1 sealed = Some (fernet_encrypt L (derive_key_from_pin L sid pin) iv d)"
       "unreadable fs1 = unreadable fs" "unwritable fs1 = unwritable fs"
       "nospace fs1 = nospace fs"
    by blast
  show ?thesis using d law rd wr
    by (simp add: decrypt_file_def read_file_def write_file_def Let_def)
qed

theorem encrypt_decrypt_roundtrip_witness:
  "\<exists>fs2 tmp d.
     decrypt_file demo_crypto ''/data/rec.mp4.enc'' ''s1'' ''1234''
        (fst (encrypt_file demo_crypto ''iv'' ''/data/rec.mp4'' ''s1'' ''1234'' demo_fs)) = (fs2, Inr tmp)
     \<and> files demo_fs ''/data/rec.mp4'' = Some d \<and> files fs2 tmp = Some d"
proof -
  have enc: "encrypt_file demo_crypto ''iv'' ''/data/rec.mp4'' ''s1'' ''1234'' demo_fs
      = (fst (encrypt_file demo_crypto ''iv'' ''/data/rec.mp4'' ''s1'' ''1234'' demo_fs),
         Inr ''/data/rec.mp4.enc'')"
    using demo_encrypt by (simp add: prod_eq_iff)
  have rd: "''/data/rec.mp4.enc'' \<notin> unreadable demo_fs" by (simp add: demo_fs_def)
  have wr: "''/tmp/'' @ basename (str_replace ''.enc'' [] ''/data/rec.mp4.enc'')
              \<notin> unwritable demo_fs \<union> nospace demo_fs"
    by (simp add: demo_fs_def)
  show ?thesis by (rule encrypt_decrypt_roundtrip[OF demo_law enc rd wr])
qed

subsection \<open>Failure of sealing\<close>

text \<open>
  Claim C4, as stated: after any failure of \<open>encrypt_file\<close> the plaintext is in place and
  no sealed file is on disk.  The function has no cleanup path.  When the plaintext cannot
  be deleted (here: a file the caller may read but not unlink), the call raises after the
  sealed blob has been written, and both files are on disk.
\<close>

theorem encrypt_file_failure_counterexample:
  "snd (encrypt_file demo_crypto ''iv'' ''/tmp/rec.mp4'' ''s1'' ''1234'' sticky_fs) = Inl PermissionError
   \<and> files (fst (encrypt_file demo_crypto ''iv'' ''/tmp/rec.mp4'' ''s1'' ''1234'' sticky_fs)) ''/tmp/rec.mp4''
        = Some ''video''
   \<and> files (fst (encrypt_file demo_crypto ''iv'' ''/tmp/rec.mp4'' ''s1'' ''1234'' sticky_fs)) ''/tmp/rec.mp4.enc''
        = Some ''s11234video''"
  by (simp add: encrypt_file_def demo_crypto_def sticky_fs_def read_file_def write_file_def
        os_remove_def derive_key_from_pin_def Let_def)

text \<open>
  Claim C4, amended.  A failed \<open>encrypt_file\<close> never touches the plaintext, nor any path
  other than the sealed one.  If the failure is in reading the plaintext or in opening the
  sealed path for writing, the file system is unchanged.  If the failure comes later (the
  write of the blob, or the deletion of the plaintext), a sealed file, partial or complete,
  stays on disk next to the plaintext.
\<close>

theorem encrypt_file_failure:
  assumes "encrypt_file L iv p sid pin fs = (fs', Inl e)"
  shows "files fs' p = files fs p
       \<and> (\<forall>q. q \<noteq> p @ ''.enc'' \<longrightarrow> files fs' q = files fs q)
       \<and> (files fs p = None \<or> p \<in> unreadable fs \<or> p @ ''.enc'' \<in> unwritable fs \<longrightarrow> fs' = fs)
       \<and> (files fs p \<noteq> None \<and> p \<notin> unreadable fs \<and> p @ ''.enc'' \<notin> unwritable fs \<longrightarrow>
            files fs' (p @ ''.enc'') \<noteq> None)"
  using assms
  by (auto simp: encrypt_file_def read_file_def write_file_def os_remove_def Let_def
           split: option.splits if_splits sum.splits prod.splits)


theorem encrypt_file_failure_witness:
  "files (fst (encrypt_file demo_crypto ''iv'' ''/tmp/rec.mp4'' ''s1'' ''1234'' sticky_fs)) ''/tmp/rec.mp4''
      = files sticky_fs ''/tmp/rec.mp4''
   \<and> files (fst (encrypt_file demo_crypto ''iv'' ''/tmp/rec.mp4'' ''s1'' ''1234'' sticky_fs)) ''/tmp/rec.mp4.enc''
      \<noteq> None"
proof -
  have "snd (encrypt_file demo_crypto ''iv'' ''/tmp/rec.mp4'' ''s1'' ''1234'' sticky_fs) = Inl PermissionError"
    by (simp add: encrypt_file_def demo_crypto_def sticky_fs_def read_file_def write_file_def
        os_remove_def derive_key_from_pin_def Let_def)
  then have h: "encrypt_file demo_crypto ''iv'' ''/tmp/rec.mp4'' ''s1'' ''1234'' sticky_fs
      = (fst (encrypt_file demo_crypto ''iv'' ''/tmp/rec.mp4'' ''s1'' ''1234'' sticky_fs), Inl PermissionError)"
    by (simp add: prod_eq_iff)
  have c: "files sticky_fs ''/tmp/rec.mp4'' \<noteq> None \<and> ''/tmp/rec.mp4'' \<notin> unreadable sticky_fs
            \<and> ''/tmp/rec.mp4'' @ ''.enc'' \<notin> unwritable sticky_fs"
    by (simp add: sticky_fs_def)
  from encrypt_file_failure[OF h] c show ?thesis by simp
qed

subsection \<open>Failure of authentication\<close>

text \<open>
  Claim C8.  When Fernet rejects the sealed blob under the key derived from the entered
  PIN (which is what a PIN other than the sealing one, or a modified blob, amounts to
  for an authenticated scheme), \<open>decrypt_file\<close> raises the error
  \<^verbatim>\<open>ValueError("Invalid PIN or corrupted file")\<close> and the file system is left as it was:
  no plaintext is written.
\<close>

theorem decrypt_file_bad_pin_or_tampered:
  assumes rd: "read_file fs sp = Inr blob"
    and rej: "fernet_decrypt L (derive_key_from_pin L sid pin') blob = None"
  shows "decrypt_file L sp sid pin' fs = (fs, Inl (ValueError ''Invalid PIN or corrupted file''))"
  using assms by (simp add: decrypt_file_def Let_def)

theorem decrypt_file_bad_pin_or_tampered_witness:
  "decrypt_file demo_crypto ''/a/rec.mp4.enc'' ''s1'' ''9999'' two_studies_fs
     = (two_studies_fs, Inl (ValueError ''Invalid PIN or corrupted file''))"
proof -
  have rd: "read_file two_studies_fs ''/a/rec.mp4.enc'' = Inr ''s11234first''"
    by (simp add: read_file_def two_studies_fs_def)
  have rej: "fernet_decrypt demo_crypto (derive_key_from_pin demo_crypto ''s1'' ''9999'') ''s11234first'' = None"
    by (simp add: demo_crypto_def derive_key_from_pin_def)
  show ?thesis by (rule decrypt_file_bad_pin_or_tampered[OF rd rej])
qed

subsection \<open>Where the plaintext goes\<close>

text \<open>
  Claim C10.  The path returned by \<open>decrypt_file\<close> is \<^verbatim>\<open>/tmp/\<close> followed by the
  basename of the sealed path with its occurrences of \<^verbatim>\<open>.enc\<close> removed; directory, study
  id and PIN play no part.  Hence a later successful call on any sealed path with the same
  basename returns the same path, and the file there then holds the later plaintext.
\<close>

theorem decrypt_file_output_path:
  assumes d1: "decrypt_file L sp1 sid1 pin1 fs = (fs1, Inr t1)"
  shows "t1 = ''/tmp/'' @ str_replace ''.enc'' [] (basename sp1)
       \<and> (\<forall>sp2 sid2 pin2 fs2 t2.
             decrypt_file L sp2 sid2 pin2 fs1 = (fs2, Inr t2) \<and> basename sp2 = basename sp1 \<longrightarrow>
               t2 = t1
               \<and> (\<exists>blob. read_file fs1 sp2 = Inr blob
                    \<and> files fs2 t1 = fernet_decrypt L (derive_key_from_pin L sid2 pin2) blob))"
proof (intro conjI allI impI)
  from decrypt_file_success[OF d1]
  show t1: "t1 = ''/tmp/'' @ str_replace ''.enc'' [] (basename sp1)"
    by (auto simp: basename_str_replace_enc)
  fix sp2 sid2 pin2 fs2 t2
  assume a: "decrypt_file L sp2 sid2 pin2 fs1 = (fs2, Inr t2) \<and> basename sp2 = basename sp1"
  from a decrypt_file_success[of L sp2 sid2 pin2 fs1 fs2 t2]
  obtain blob d where b: "read_file fs1 sp2 = Inr blob"
     "fernet_decrypt L (derive_key_from_pin L sid2 pin2) blob = Some d"
     "t2 = ''/tmp/'' @ basename (str_replace ''.enc'' [] sp2)"
     "fs2 = fs1\<lparr>files := (files fs1)(t2 \<mapsto> d)\<rparr>"
    by blast
  from b(3) a t1 show "t2 = t1" by (simp add: basename_str_replace_enc)
  with b show "\<exists>blob. read_file fs1 sp2 = Inr blob
                    \<and> files fs2 t1 = fernet_decrypt L (derive_key_from_pin L sid2 pin2) blob"
    by simp
qed

theorem decrypt_file_output_path_witness:
  "snd (decrypt_file demo_crypto ''/a/rec.mp4.enc'' ''s1'' ''1234'' two_studies_fs) = Inr ''/tmp/rec.mp4''
   \<and> snd (decrypt_file demo_crypto ''/b/rec.mp4.enc'' ''s2'' ''5678''
          (fst (decrypt_file demo_crypto ''/a/rec.mp4.enc'' ''s1'' ''1234'' two_studies_fs))) = Inr ''/tmp/rec.mp4''
   \<and> files (fst (decrypt_file demo_crypto ''/b/rec.mp4.enc'' ''s2'' ''5678''
          (fst (decrypt_file demo_crypto ''/a/rec.mp4.enc'' ''s1'' ''1234'' two_studies_fs)))) ''/tmp/rec.mp4''
        = Some ''second''"
proof -
  let ?r1 = "decrypt_file demo_crypto ''/a/rec.mp4.enc'' ''s1'' ''1234'' two_studies_fs"
  let ?r2 = "decrypt_file demo_crypto ''/b/rec.mp4.enc'' ''s2'' ''5678'' (fst ?r1)"
  have e: "str_replace ''.enc'' [] ''/a/rec.mp4.enc'' = ''/a/rec.mp4''"
          "str_replace ''.enc'' [] ''/b/rec.mp4.enc'' = ''/b/rec.mp4''"
    by code_simp+
  have bn: "basename ''/a/rec.mp4'' = ''rec.mp4''" "basename ''/b/rec.mp4'' = ''rec.mp4''"
           "basename ''/a/rec.mp4.enc'' = ''rec.mp4.enc''" "basename ''/b/rec.mp4.enc'' = ''rec.mp4.enc''"
    by (simp_all add: basename_def)
  have r1: "?r1 = (two_studies_fs\<lparr>files := (files two_studies_fs)(''/tmp/rec.mp4'' \<mapsto> ''first'')\<rparr>, Inr ''/tmp/rec.mp4'')"
    by (simp add: decrypt_file_def read_file_def write_file_def two_studies_fs_def demo_crypto_def
          derive_key_from_pin_def Let_def e bn)
  have r2: "?r2 = (fst ?r2, Inr ''/tmp/rec.mp4'')"
    unfolding r1
    by (simp add: decrypt_file_def read_file_def write_file_def two_studies_fs_def demo_crypto_def
          derive_key_from_pin_def Let_def e bn)
  have rd: "read_file (fst ?r1) ''/b/rec.mp4.enc'' = Inr ''s25678second''"
    unfolding r1 by (simp add: read_file_def two_studies_fs_def)
  have k: "fernet_decrypt demo_crypto (derive_key_from_pin demo_crypto ''s2'' ''5678'') ''s25678second'' = Some ''second''"
    by (simp add: demo_crypto_def derive_key_from_pin_def)
  have h: "?r1 = (fst ?r1, Inr ''/tmp/rec.mp4'')" by (simp add: r1)
  have bneq: "basename ''/b/rec.mp4.enc'' = basename ''/a/rec.mp4.enc''" by (simp only: bn)
  from decrypt_file_output_path[OF h, THEN conjunct2, rule_format, OF conjI[OF r2 bneq]]
  obtain blob where b: "read_file (fst ?r1) ''/b/rec.mp4.enc'' = Inr blob"
    "files (fst ?r2) ''/tmp/rec.mp4'' = fernet_decrypt demo_crypto (derive_key_from_pin demo_crypto ''s2'' ''5678'') blob"
    by blast
  from b(1) rd have "blob = ''s25678second''" by simp
  with b(2) k have "files (fst ?r2) ''/tmp/rec.mp4'' = Some ''second''" by simp
  moreover have "snd ?r1 = Inr ''/tmp/rec.mp4''" by (subst h) simp
  moreover have "snd ?r2 = Inr ''/tmp/rec.mp4''" by (subst r2) simp
  ultimately show ?thesis by blast
qed

section \<open>Properties of the device reader\<close>

subsection \<open>Arithmetic of the normalisation\<close>



subsection \<open>The demonstration reader\<close>

lemma demo_code:
  "code_name_abs (ABS (demo_reader a)) 0 = ''ABS_X''"
  "code_name_abs (ABS (demo_reader a)) 3 = ''ABS_RX''"
  by (simp_all add: demo_reader_def demo_tables_def code_name_abs_def pick_name_def)

lemma demo_cal:
  "axis_calibrations (demo_reader a) ''ABS_X'' = Some \<lparr>min_value = 0, max_value = 6\<rparr>"
  "axis_calibrations (demo_reader a) ''ABS_RX'' = None"
  by (simp_all add: demo_reader_def parse_calibrations_def)

lemma demo_allowed: "allowed_inputs (demo_reader a) = a"
  by (simp add: demo_reader_def)



lemma demo_run_filtered:
  "run_event (demo_reader (Some [''ABS_X''])) 12 ''e1'' \<lparr>ev_type = EV_ABS, ev_code = 3, ev_value = 5\<rparr>
     = None"
  by (simp add: run_event_def Let_def demo_code filtered_out_def demo_allowed)

lemma demo_run_empty:
  "run_event (demo_reader (Some [])) 12 ''e1'' \<lparr>ev_type = EV_ABS, ev_code = 3, ev_value = 5\<rparr>
     = Some \<lparr>event_id = ''e1'', recording_id = ''rec'', session_id = ''sess'', stream_id = ''st'',
              t_ms = 12, kind = Axis, code = ''ABS_RX'', val = Some 5, is_press = None\<rparr>"
  by (simp add: run_event_def Let_def demo_code demo_cal filtered_out_def
        demo_allowed py_int_def) (simp add: demo_reader_def)

subsection \<open>Stored axis values\<close>




subsection \<open>The allow-list\<close>

text \<open>
  Claim C6, as stated: when the allow-list is present, the empty list included, an event
  whose code is not a member is dropped.  The guard of the reader is
  \<^verbatim>\<open>if self.allowed_inputs and code not in self.allowed_inputs\<close>, and an empty list is
  false in Python: with the empty allow-list the event is stored.
\<close>

theorem run_event_filter_counterexample:
  "allowed_inputs (demo_reader (Some [])) = Some []
   \<and> symbolic_code (demo_reader (Some [])) \<lparr>ev_type = EV_ABS, ev_code = 3, ev_value = 5\<rparr> = ''ABS_RX''
   \<and> ''ABS_RX'' \<notin> set []
   \<and> run_event (demo_reader (Some [])) 12 ''e1'' \<lparr>ev_type = EV_ABS, ev_code = 3, ev_value = 5\<rparr>
        \<noteq> None"
  by (simp add: demo_run_empty demo_allowed symbolic_code_def demo_code)

text \<open>
  Claim C6, amended.  An axis or button event is dropped by the reader exactly when the
  allow-list is present and non-empty and the symbolic code of the event is not a member.
  With no allow-list, or with an empty one, every axis and button event is stored.
\<close>

theorem run_event_filter:
  assumes "ev_type ev = EV_ABS \<or> ev_type ev = EV_KEY"
  shows "run_event r now uid ev = None \<longleftrightarrow>
           (\<exists>xs. allowed_inputs r = Some xs \<and> xs \<noteq> [] \<and> symbolic_code r ev \<notin> set xs)"
  using assms
  by (auto simp: run_event_def symbolic_code_def filtered_out_def Let_def split: option.splits)

theorem run_event_filter_witness:
  "run_event (demo_reader (Some [''ABS_X''])) 12 ''e1'' \<lparr>ev_type = EV_ABS, ev_code = 3, ev_value = 5\<rparr> = None
   \<and> run_event (demo_reader (Some [''ABS_X''])) 12 ''e1'' \<lparr>ev_type = EV_ABS, ev_code = 0, ev_value = 5\<rparr> \<noteq> None
   \<and> run_event (demo_reader None) 12 ''e1'' \<lparr>ev_type = EV_ABS, ev_code = 3, ev_value = 5\<rparr> \<noteq> None"
  using run_event_filter[of "\<lparr>ev_type = EV_ABS, ev_code = 3, ev_value = 5\<rparr>" "demo_reader (Some [''ABS_X''])" 12 "''e1''"]
        run_event_filter[of "\<lparr>ev_type = EV_ABS, ev_code = 0, ev_value = 5\<rparr>" "demo_reader (Some [''ABS_X''])" 12 "''e1''"]
        run_event_filter[of "\<lparr>ev_type = EV_ABS, ev_code = 3, ev_value = 5\<rparr>" "demo_reader None" 12 "''e1''"]
  by (simp add: demo_allowed symbolic_code_def demo_code)

section \<open>Properties of the alignment\<close>

lemma upt_0_2: "[0 ..< 2] = [0, Suc 0]"
  by (simp add: numeral_2_eq_2 upt_rec)

text \<open>
  Claim C1 says that alignment resamples every series by carrying the last value forward.
  All three alignment functions hand the series to \<^verbatim>\<open>np.interp\<close>, which interpolates
  linearly between samples.  For the series with samples \<open>(0, 0)\<close> and \<open>(10, 10)\<close>
  the value assigned at time 5 is 5, where the most recent sample at or before 5 is 0; the
  last two lines give the carried-forward values for comparison.
\<close>

theorem alignment_interpolates_linearly:
  "align_traces \<lparr>times_ms = [0, 10], trace_values = [0, 10]\<rparr>
                \<lparr>times_ms = [0, 5, 10], trace_values = [1, 1, 1]\<rparr>
     = Inr ([0, 5, 10], [0, 5, 10], [1, 1, 1])
   \<and> align_multiple_traces
        [(''A'', \<lparr>times_ms = [0, 10], trace_values = [0, 10]\<rparr>),
         (''B'', \<lparr>times_ms = [0, 5, 10], trace_values = [1, 1, 1]\<rparr>),
         (''C'', \<lparr>times_ms = [0, 10], trace_values = [2, 2]\<rparr>)]
     = Inr ([0, 5, 10], [(''A'', [0, 5, 10]), (''B'', [1, 1, 1]), (''C'', [2, 2, 2])])
   \<and> align_time_series
        [(''A'', \<lparr>times_ms = [0, 2], trace_values = [0, 2]\<rparr>),
         (''B'', \<lparr>times_ms = [0, 2], trace_values = [1, 1]\<rparr>)]
     = Inr (Some ([0, 1], [(''A'', [0, 1]), (''B'', [1, 1])]))
   \<and> map (carried_forward [0, 10] [0, 10]) [0, 5, 10] = [0, 0, 10]
   \<and> map (carried_forward [0, 2] [0, 2]) [0, 1] = [0, 0]"
proof (intro conjI)
  show "align_traces \<lparr>times_ms = [0, 10], trace_values = [0, 10]\<rparr>
                \<lparr>times_ms = [0, 5, 10], trace_values = [1, 1, 1]\<rparr>
     = Inr ([0, 5, 10], [0, 5, 10], [1, 1, 1])"
    by (simp add: align_traces_def np_unique_def np_interp_def interp_point_def Let_def)
  show "align_multiple_traces
        [(''A'', \<lparr>times_ms = [0, 10], trace_values = [0, 10]\<rparr>),
         (''B'', \<lparr>times_ms = [0, 5, 10], trace_values = [1, 1, 1]\<rparr>),
         (''C'', \<lparr>times_ms = [0, 10], trace_values = [2, 2]\<rparr>)]
     = Inr ([0, 5, 10], [(''A'', [0, 5, 10]), (''B'', [1, 1, 1]), (''C'', [2, 2, 2])])"
    by (simp add: align_multiple_traces_def np_unique_def np_interp_def interp_point_def Let_def
         maximum_def minimum_def)
  show "align_time_series
        [(''A'', \<lparr>times_ms = [0, 2], trace_values = [0, 2]\<rparr>),
         (''B'', \<lparr>times_ms = [0, 2], trace_values = [1, 1]\<rparr>)]
     = Inr (Some ([0, 1], [(''A'', [0, 1]), (''B'', [1, 1])]))"
    by (simp add: align_time_series_def np_arange_def np_interp_def interp_point_def Let_def
         maximum_def minimum_def upt_0_2)
  show "map (carried_forward [0, 10] [0, 10]) [0, 5, 10] = [0, 0, 10]"
    by (simp add: carried_forward_def)
  show "map (carried_forward [0, 2] [0, 2]) [0, 1] = [0, 0]"
    by (simp add: carried_forward_def)
qed

section \<open>Properties of the conversion to regular samples\<close>

subsection \<open>The forward-fill loop carries the last value forward\<close>












subsection \<open>The converted series\<close>




section \<open>Properties of the pairwise analysis\<close>

lemma align_traces_lengths:
  assumes "align_traces d1 d2 = Inr (tms, v1, v2)"
  shows "length v1 = length tms \<and> length v2 = length tms"
  using assms
  by (auto simp: align_traces_def np_interp_def Let_def split: if_splits sum.splits)

lemma demo_align:
  "align_traces \<lparr>times_ms = [0, 10, 20], trace_values = [0, 1, 0]\<rparr>
                \<lparr>times_ms = [0, 10, 20], trace_values = [1, 0, 1]\<rparr>
     = Inr ([0, 10, 20], [0, 1, 0], [1, 0, 1])"
  by (simp add: align_traces_def np_unique_def np_interp_def interp_point_def Let_def)

lemma demo_opposite: "detect_opposite_movements [0, 10, 20] [0, 1, 0] [1, 0, 1] = [0, 10]"
  by (simp add: detect_opposite_movements_def np_diff_def np_std_def np_mean_def Let_def
        upt_0_2 py_int_def)

text \<open>
  Claim C7, as stated: with fewer than 10 aligned samples the pairwise analysis reports no
  opposite movements.  The guard of \<^verbatim>\<open>_detect_opposite_movements\<close> is at two samples,
  not ten: two traces of three samples moving against each other give two opposite
  movements.
\<close>

theorem analyze_pairwise_short_counterexample:
  "length [0, 10, 20 :: real] < 10
   \<and> align_traces \<lparr>times_ms = [0, 10, 20], trace_values = [0, 1, 0]\<rparr>
                  \<lparr>times_ms = [0, 10, 20], trace_values = [1, 0, 1]\<rparr>
       = Inr ([0, 10, 20], [0, 1, 0], [1, 0, 1])
   \<and> (case analyze_pairwise demo_scipy default_analyzer
               (''A'', \<lparr>times_ms = [0, 10, 20], trace_values = [0, 1, 0]\<rparr>)
               (''B'', \<lparr>times_ms = [0, 10, 20], trace_values = [1, 0, 1]\<rparr>) of
         Inl e \<Rightarrow> None
       | Inr res \<Rightarrow> map_option opposite_movements (pairwise res)) = Some [0, 10]"
  by (simp add: demo_align analyze_pairwise_def demo_scipy_def demo_opposite Let_def)

text \<open>
  Claim C7, amended.  When alignment yields fewer than 10 samples and scipy's correlation
  functions answer on inputs of two or more samples, the pairwise analysis returns: with
  fewer than 2 samples the empty result; otherwise a pairwise result whose lead-lag is
  zero (\<open>optimal_lag_ms = 0\<close>, cross-correlation \<open>0.0\<close>) and whose convergence and
  divergence event lists are empty.  Simultaneous peaks are empty by the function's own
  guard when there are fewer than 3 samples; nothing is said of opposite movements.
\<close>

theorem analyze_pairwise_short:
  assumes al: "align_traces (snd named1) (snd named2) = Inr (tms, values1, values2)"
    and short: "length tms < 10"
    and pr: "\<forall>x y. 2 \<le> length x \<longrightarrow> (\<exists>r. pearsonr L x y = Inr r)"
    and sr: "\<forall>x y. 2 \<le> length x \<longrightarrow> (\<exists>r. spearmanr L x y = Inr r)"
  shows "\<exists>res. analyze_pairwise L self named1 named2 = Inr res
          \<and> (length tms < 2 \<longrightarrow> res = empty_results)
          \<and> (2 \<le> length tms \<longrightarrow>
                (\<exists>p. pairwise res = Some p
                   \<and> optimal_lag_ms p = 0 \<and> max_cross_correlation p = Some 0
                   \<and> convergence_events p = [] \<and> divergence_events p = []
                   \<and> (length tms < 3 \<longrightarrow> simultaneous_peaks p = [])))"
proof (cases "length tms < 2")
  case True
  with al show ?thesis by (simp add: analyze_pairwise_def)
next
  case False
  from align_traces_lengths[OF al] have l: "length values1 = length tms" "length values2 = length tms"
    by simp_all
  from False l have "2 \<le> length values1" by simp
  with pr sr obtain r s where rs: "pearsonr L values1 values2 = Inr r" "spearmanr L values1 values2 = Inr s"
    by blast
  obtain r1 r2 s1 s2 where r: "r = (r1, r2)" "s = (s1, s2)" by (cases r, cases s) auto
  have d: "length (map (\<lambda>(v1, v2). \<bar>v1 - v2\<bar>) (zip values1 values2)) < 10"
    using l short by simp
  have ll: "compute_lead_lag values1 values2 tms = (0, Some 0)"
    using l short by (simp add: compute_lead_lag_def)
  have cd: "detect_convergence_divergence self tms (map (\<lambda>(v1, v2). \<bar>v1 - v2\<bar>) (zip values1 values2)) = ([], [])"
    using d by (simp add: detect_convergence_divergence_def)
  have sp: "length tms < 3 \<Longrightarrow> detect_simultaneous_peaks L tms values1 values2 = []"
    using l by (simp add: detect_simultaneous_peaks_def)
  show ?thesis
    using False al rs r ll cd sp by (simp add: analyze_pairwise_def Let_def)
qed

theorem analyze_pairwise_short_witness:
  "\<exists>res. analyze_pairwise demo_scipy default_analyzer
               (''A'', \<lparr>times_ms = [0, 10, 20], trace_values = [0, 1, 0]\<rparr>)
               (''B'', \<lparr>times_ms = [0, 10, 20], trace_values = [1, 0, 1]\<rparr>) = Inr res
          \<and> (\<exists>p. pairwise res = Some p
                   \<and> optimal_lag_ms p = 0 \<and> max_cross_correlation p = Some 0
                   \<and> convergence_events p = [] \<and> divergence_events p = [])"
proof -
  have al: "align_traces (snd (''A'', \<lparr>times_ms = [0, 10, 20], trace_values = [0, 1, 0]\<rparr>))
                         (snd (''B'', \<lparr>times_ms = [0, 10, 20], trace_values = [1, 0, 1]\<rparr>))
              = Inr ([0, 10, 20], [0, 1, 0], [1, 0, 1])"
    using demo_align by simp
  have short: "length [0, 10, 20 :: real] < 10" by simp
  have pr: "\<forall>x y. 2 \<le> length x \<longrightarrow> (\<exists>r. pearsonr demo_scipy x y = Inr r)"
    by (simp add: demo_scipy_def)
  have sr: "\<forall>x y. 2 \<le> length x \<longrightarrow> (\<exists>r. spearmanr demo_scipy x y = Inr r)"
    by (simp add: demo_scipy_def)
  from analyze_pairwise_short[OF al short pr sr, of default_analyzer]
  show ?thesis by auto
qed

section \<open>Properties of stream creation\<close>

subsection \<open>What the start routines add to the store\<close>







subsection \<open>The demonstration session\<close>






subsection \<open>The INIT marker\<close>





end
